theory Spec2Isabelle
  imports Complex_Main "HOL-Library.AList" "HOL-Library.Char_ord" "HOL-Library.List_Lexorder"
begin

section \<open>Conventions of the embedding\<close>

text \<open>
  The program is a Flask application (\<^verbatim>\<open>app.py\<close>). Its functions are embedded as HOL
  functions under their own names (a leading underscore is dropped, since an Isabelle
  name starts with a letter).

  \<^item> Python \<^verbatim>\<open>float\<close> values are embedded as \<^typ>\<open>real\<close>: arithmetic is exact, and
    binary rounding, infinities and NaN are outside the model.
  \<^item> A Python \<^verbatim>\<open>dict\<close> with string keys whose insertion order is visible (a stock row)
    is an association list updated with \<^const>\<open>AList.update\<close>, which overwrites in
    place or appends, as \<^verbatim>\<open>d[k] = v\<close> does.
  \<^item> Module-level state (\<^verbatim>\<open>cache\<close>, the history directory, the files of the data
    directory) is passed explicitly and returned updated.
  \<^item> Every \<^verbatim>\<open>except\<close> branch and every early \<^verbatim>\<open>return\<close> is a branch of the model;
    what the surrounding world decides (the clock, the outcome of the subprocess, whether
    a file can be opened) is an argument.
  \<^item> \<^verbatim>\<open>print\<close> is not modelled.
\<close>

section \<open>Atomic JSON store\<close>

text \<open>A JSON document.\<close>

datatype json =
  JNull | JBool bool | JNum real | JStr string | JArr "json list" | JObj "(string \<times> json) list"

text \<open>
  The files of the data directory: \<open>files fs p\<close> is the text of the file at path \<open>p\<close>,
  if there is one, and \<open>unwritable fs p\<close> says that opening \<open>p\<close> for writing, or
  renaming a file to \<open>p\<close>, raises \<^verbatim>\<open>OSError\<close> (a missing directory, a directory in the
  place of the file, no permission). Reading a file that exists and \<^verbatim>\<open>fcntl.flock\<close> are
  taken not to raise.
\<close>

record file_system =
  files :: "string \<Rightarrow> string option"
  unwritable :: "string \<Rightarrow> bool"

text \<open>
  \<^verbatim>\<open>save_json_file(filepath, data)\<close>. The argument \<open>dumps\<close> is \<^verbatim>\<open>json.dumps(_, indent=2)\<close>.
  Opening the lock file with mode \<^verbatim>\<open>'w'\<close> creates or empties it; the temporary file is
  written in full and then renamed over the target.
\<close>

definition save_json_file ::
  "(json \<Rightarrow> string) \<Rightarrow> string \<Rightarrow> json \<Rightarrow> file_system \<Rightarrow> file_system \<times> bool" where
  "save_json_file dumps filepath d fs =
     (let tmp_path = filepath @ ''.tmp'';
          lock_path = filepath @ ''.lock''
      in if unwritable fs lock_path then (fs, False)
         else
           (let fs1 = fs\<lparr>files := (files fs)(lock_path \<mapsto> [])\<rparr>
            in if unwritable fs tmp_path then (fs1, False)
               else
                 (let fs2 = fs1\<lparr>files := (files fs1)(tmp_path \<mapsto> dumps d)\<rparr>
                  in if unwritable fs filepath then (fs2, False)
                     else (fs2\<lparr>files := ((files fs2)(filepath := files fs2 tmp_path))
                                           (tmp_path := None)\<rparr>, True))))"

text \<open>
  \<^verbatim>\<open>load_json_file(filepath, default=None)\<close>. The argument \<open>loads\<close> is \<^verbatim>\<open>json.loads\<close>, with
  \<open>None\<close> for a text it raises on; \<open>dflt = None\<close> is the default \<^verbatim>\<open>None\<close>, for which the
  function returns the empty list.
\<close>

definition load_json_file ::
  "(string \<Rightarrow> json option) \<Rightarrow> string \<Rightarrow> json option \<Rightarrow> file_system \<Rightarrow> json" where
  "load_json_file loads filepath dflt fs =
     (case (case files fs filepath of None \<Rightarrow> None | Some text \<Rightarrow> loads text) of
        Some d \<Rightarrow> d
      | None \<Rightarrow> (case dflt of None \<Rightarrow> JArr [] | Some d \<Rightarrow> d))"

text \<open>
  \<^verbatim>\<open>json.dumps\<close> and \<^verbatim>\<open>json.loads\<close> on the documents \<^verbatim>\<open>[]\<close>, \<^verbatim>\<open>{}\<close>, \<^verbatim>\<open>true\<close>, \<^verbatim>\<open>false\<close>
  and \<^verbatim>\<open>null\<close>, to run the store on them (they are exact on these five only).
\<close>

definition dumps_small :: "json \<Rightarrow> string" where
  "dumps_small d =
     (if d = JArr [] then ''[]'' else if d = JObj [] then ''{}''
      else if d = JBool True then ''true'' else if d = JBool False then ''false''
      else ''null'')"

definition loads_small :: "string \<Rightarrow> json option" where
  "loads_small text =
     (if text = ''[]'' then Some (JArr []) else if text = ''{}'' then Some (JObj [])
      else if text = ''true'' then Some (JBool True)
      else if text = ''false'' then Some (JBool False)
      else if text = ''null'' then Some JNull
      else None)"

section \<open>Sheet snapshot parser\<close>

type_synonym stock = "(string \<times> string) list"

record market_info =
  regime :: string
  dist_days :: string
  buy_ok :: string

record account_info =
  balance :: string
  risk_per_trade :: string
  actionable :: string

record snapshot =
  scan_time :: string
  market :: market_info
  account :: account_info
  headers :: "string list"
  stocks :: "stock list"
  cache_time :: real

text \<open>The module-level dictionary \<^verbatim>\<open>cache\<close>.\<close>

record cache_state =
  data :: "snapshot option"
  timestamp :: real
  last_scan_time :: "string option"

text \<open>\<^verbatim>\<open>row[j] if len(row) > j else d\<close>\<close>

definition cell :: "string list \<Rightarrow> nat \<Rightarrow> string \<Rightarrow> string" where
  "cell row j d = (if j < length row then row ! j else d)"

text \<open>
  The inner loop of \<^verbatim>\<open>parse_sheet_data\<close>:
  \<^verbatim>\<open>for j, header in enumerate(headers): stock[header] = row[j] if j < len(row) else ""\<close>
\<close>

definition stock_of_row :: "string list \<Rightarrow> string list \<Rightarrow> stock" where
  "stock_of_row hs row =
     fold (\<lambda>(j, header) stock. AList.update header (cell row j '''') stock) (enumerate 0 hs) []"

text \<open>
  \<^verbatim>\<open>parse_sheet_data(raw_values)\<close>. It reads the global \<^verbatim>\<open>cache['timestamp']\<close> for the
  \<^verbatim>\<open>cache_time\<close> field, so the cache is an argument. \<open>None\<close> is Python's \<^verbatim>\<open>None\<close>.
  Every index is guarded by a length test, so no branch raises.
\<close>

definition parse_sheet_data :: "cache_state \<Rightarrow> string list list \<Rightarrow> snapshot option" where
  "parse_sheet_data c raw_values =
     (if raw_values = [] \<or> length raw_values < 5 then None
      else Some \<lparr>
        scan_time = cell (raw_values ! 0) 2 ''Unknown'',
        market = \<lparr> regime = cell (raw_values ! 1) 0 '''',
                   dist_days = cell (raw_values ! 1) 2 '''',
                   buy_ok = cell (raw_values ! 1) 4 '''' \<rparr>,
        account = \<lparr> balance = cell (raw_values ! 2) 0 '''',
                    risk_per_trade = cell (raw_values ! 2) 2 '''',
                    actionable = cell (raw_values ! 2) 4 '''' \<rparr>,
        headers = raw_values ! 4,
        stocks = map (stock_of_row (raw_values ! 4))
                   (filter (\<lambda>row. row \<noteq> [] \<and> length row > 1) (drop 5 raw_values)),
        cache_time = timestamp c \<rparr>)"

section \<open>Cache gate\<close>

text \<open>
  The environment variables read at import time. \<^verbatim>\<open>CACHE_DURATION\<close> is
  \<^verbatim>\<open>int(os.getenv('CACHE_DURATION', '300'))\<close>.
\<close>

record config =
  SHEET_ID :: string
  GOG_ACCOUNT :: string
  CACHE_DURATION :: int

text \<open>
  What the \<^verbatim>\<open>gog\<close> subprocess did: \<open>Raised\<close> is any exception inside the \<^verbatim>\<open>try\<close>
  (the 30 second timeout, a missing executable); \<open>Completed rc out\<close> is a finished run
  with its return code, where \<open>out\<close> says what \<^verbatim>\<open>json.loads(result.stdout)\<close> and
  \<^verbatim>\<open>data.get('values', [])\<close> make of the output: \<open>NotJson\<close> (one of them raises),
  \<open>NoValues\<close> (an object without the key) or the array under \<^verbatim>\<open>'values'\<close>.
\<close>

datatype gog_stdout = NotJson | NoValues | Values "string list list"

datatype gog_run = Raised | Completed int gog_stdout

definition fetch_sheet_data :: "config \<Rightarrow> gog_run \<Rightarrow> string list list option" where
  "fetch_sheet_data cfg r =
     (if SHEET_ID cfg = [] \<or> GOG_ACCOUNT cfg = [] then None
      else case r of
        Raised \<Rightarrow> None
      | Completed returncode out \<Rightarrow>
          if returncode \<noteq> 0 then None
          else (case out of
                  NotJson \<Rightarrow> None
                | NoValues \<Rightarrow> Some []
                | Values v \<Rightarrow> Some v))"

text \<open>
  The history directory, as the sequence of files this process has written to it,
  oldest first (a later file of the same name replaces an earlier one on disk).
  \<^verbatim>\<open>save_historical_snapshot(data)\<close> takes the outcome of its \<^verbatim>\<open>try\<close> block as an
  argument: \<open>Some filename\<close> when the file named after the clock was written, \<open>None\<close>
  when an exception was caught.
\<close>

type_synonym history_dir = "(string \<times> snapshot) list"

definition save_historical_snapshot ::
  "string option \<Rightarrow> snapshot \<Rightarrow> history_dir \<Rightarrow> history_dir" where
  "save_historical_snapshot written d h =
     (case written of None \<Rightarrow> h | Some filename \<Rightarrow> h @ [(filename, d)])"

record world =
  cache :: cache_state
  history :: history_dir

text \<open>What one call of \<^verbatim>\<open>get_cached_data\<close> finds outside the process.\<close>

record call_env =
  current_time :: real
  gog :: gog_run
  snapshot_file :: "string option"

text \<open>
  \<^verbatim>\<open>get_cached_data(force_refresh)\<close>. \<^verbatim>\<open>if raw_data:\<close> is false for \<^verbatim>\<open>None\<close> and for the
  empty list. \<^verbatim>\<open>parse_sheet_data\<close> runs before \<^verbatim>\<open>cache['timestamp']\<close> is assigned.
  \<^verbatim>\<open>if cache['data'] and ...\<close>: a parsed snapshot is a non-empty dictionary, so the test
  is whether the parse returned one.
\<close>

definition get_cached_data ::
  "config \<Rightarrow> call_env \<Rightarrow> bool \<Rightarrow> world \<Rightarrow> world \<times> snapshot option" where
  "get_cached_data cfg e force_refresh w =
     (if force_refresh \<or> data (cache w) = None
         \<or> current_time e - timestamp (cache w) > of_int (CACHE_DURATION cfg)
      then
        (case fetch_sheet_data cfg (gog e) of
           None \<Rightarrow> (w, data (cache w))
         | Some raw_data \<Rightarrow>
             if raw_data = [] then (w, data (cache w))
             else
               (case parse_sheet_data (cache w) raw_data of
                  None \<Rightarrow>
                    (w\<lparr>cache := (cache w)\<lparr>data := None, timestamp := current_time e\<rparr>\<rparr>, None)
                | Some d \<Rightarrow>
                    if Some (scan_time d) \<noteq> last_scan_time (cache w)
                    then
                      (w\<lparr>cache := (cache w)\<lparr>data := Some d, timestamp := current_time e,
                                           last_scan_time := Some (scan_time d)\<rparr>,
                         history := save_historical_snapshot (snapshot_file e) d (history w)\<rparr>,
                       Some d)
                    else
                      (w\<lparr>cache := (cache w)\<lparr>data := Some d, timestamp := current_time e\<rparr>\<rparr>,
                       Some d)))
      else (w, data (cache w)))"



text \<open>
  \<^verbatim>\<open>api_refresh()\<close>: the route's answer is the HTTP status 500 with an error body when
  the gate returns \<^verbatim>\<open>None\<close>, and the snapshot (status 200) otherwise.
\<close>

definition api_refresh :: "config \<Rightarrow> call_env \<Rightarrow> world \<Rightarrow> world \<times> (nat \<times> string + snapshot)" where
  "api_refresh cfg e w =
     (case get_cached_data cfg e True w of
        (w', None) \<Rightarrow> (w', Inl (500, ''Failed to refresh data''))
      | (w', Some d) \<Rightarrow> (w', Inr d))"

section \<open>Position-sizing annotator\<close>

subsection \<open>Python's number conversions and formatting\<close>





text \<open>
  Rounding to the nearest integer, ties to the even one, as the \<^verbatim>\<open>.0f\<close> and
  \<^verbatim>\<open>round\<close> conversions do on the exact value.
\<close>

definition round_half_even :: "real \<Rightarrow> int" where
  "round_half_even x =
     (let f = \<lfloor>x\<rfloor>; r = x - of_int f
      in if r < 1 / 2 then f
         else if r > 1 / 2 then f + 1
         else if even f then f else f + 1)"








subsection \<open>The annotation of \<^verbatim>\<open>api_data\<close>\<close>

text \<open>
  The settings document, as far as \<^verbatim>\<open>api_data\<close> reads it; \<open>None\<close> is a missing key.
\<close>

record settings =
  account_equity :: "real option"
  risk_pct :: "real option"






section \<open>Trade tracker: covered calls\<close>

subsection \<open>Stored values, requests and errors\<close>

text \<open>
  A key of a stored dictionary that the program writes as \<^verbatim>\<open>None\<close> and reads with
  \<^verbatim>\<open>.get(key, default)\<close>: the key is absent, its value is JSON \<^verbatim>\<open>null\<close>, or it has a value.
\<close>

datatype 'a jval = Absent | Null | Val 'a

text \<open>
  A field of a request body after \<^verbatim>\<open>int(data.get(k, d))\<close> or \<^verbatim>\<open>float(data.get(k, d))\<close>:
  the key is missing (the default is converted), the conversion raises \<^verbatim>\<open>ValueError\<close> or
  \<^verbatim>\<open>TypeError\<close>, or it yields a number.
\<close>

datatype 'a arg = Missing | Bad | Good 'a

datatype py_error = KeyError | TypeError

text \<open>
  What a request handler finds outside the process: the two renderings of
  \<^verbatim>\<open>datetime.now()\<close>, and whether \<^verbatim>\<open>save_json_file\<close> managed to write (the handlers of
  the trade tracker ignore its result).
\<close>

record req_env =
  today :: string
  now_iso :: string
  save_ok :: bool

text \<open>
  \<^verbatim>\<open>x.get('pnl', d)\<close>, given the stored \<^verbatim>\<open>pnl\<close>: \<open>None\<close> is Python's \<^verbatim>\<open>None\<close>, on which the
  sums and the comparisons of the summaries raise \<^verbatim>\<open>TypeError\<close>.
\<close>

definition get_pnl :: "real jval \<Rightarrow> real \<Rightarrow> real option" where
  "get_pnl j d = (case j of Absent \<Rightarrow> Some d | Null \<Rightarrow> None | Val v \<Rightarrow> Some v)"

text \<open>A list of results of steps that may raise: the first error, or all the values.\<close>

fun collect :: "('e + 'a) list \<Rightarrow> 'e + 'a list" where
  "collect [] = Inr []"
| "collect (x # xs) =
     (case x of
        Inl err \<Rightarrow> Inl err
      | Inr v \<Rightarrow> (case collect xs of Inl err \<Rightarrow> Inl err | Inr vs \<Rightarrow> Inr (v # vs)))"

text \<open>\<^verbatim>\<open>round(x, 2)\<close>, on the exact value.\<close>

definition py_round2 :: "real \<Rightarrow> real" where
  "py_round2 x = of_int (round_half_even (x * 100)) / 100"

text \<open>\<^verbatim>\<open>t.get('id', 0)\<close>, given the stored id (\<open>None\<close> for a missing key).\<close>

definition get_id :: "int option \<Rightarrow> int" where
  "get_id i = (case i of None \<Rightarrow> 0 | Some n \<Rightarrow> n)"

text \<open>\<^verbatim>\<open>max((t.get('id', 0) for t in trades), default=0) + 1\<close>, given the stored ids.\<close>

definition next_id :: "int option list \<Rightarrow> int" where
  "next_id ids = (case map get_id ids of [] \<Rightarrow> 0 | x # xs \<Rightarrow> fold max xs x) + 1"

subsection \<open>Ticker validation\<close>

text \<open>
  \<^verbatim>\<open>str.strip\<close>, \<^verbatim>\<open>str.upper\<close> and \<^verbatim>\<open>str.isalnum\<close> on ASCII text (a character outside
  ASCII counts as neither a letter nor a digit here).
\<close>

definition is_space :: "char \<Rightarrow> bool" where
  "is_space c \<longleftrightarrow> c \<in> set [CHR '' '', CHR 0x09, CHR 0x0A, CHR 0x0B, CHR 0x0C, CHR 0x0D,
                               CHR 0x1C, CHR 0x1D, CHR 0x1E, CHR 0x1F]"

definition strip :: "string \<Rightarrow> string" where
  "strip s = rev (dropWhile is_space (rev (dropWhile is_space s)))"

definition upper :: "string \<Rightarrow> string" where
  "upper s =
     map (\<lambda>c. case map_of (zip ''abcdefghijklmnopqrstuvwxyz'' ''ABCDEFGHIJKLMNOPQRSTUVWXYZ'') c of
                 None \<Rightarrow> c | Some u \<Rightarrow> u) s"

definition isalnum :: "string \<Rightarrow> bool" where
  "isalnum s \<longleftrightarrow> s \<noteq> [] \<and>
     list_all (\<lambda>c. c \<in> set ''abcdefghijklmnopqrstuvwxyzABCDEFGHIJKLMNOPQRSTUVWXYZ0123456789'') s"

text \<open>
  \<^verbatim>\<open>not ticker or len(ticker) > 10 or not ticker.replace('.', '').replace('-', '').isalnum()\<close>
\<close>

definition invalid_ticker :: "string \<Rightarrow> bool" where
  "invalid_ticker ticker \<longleftrightarrow>
     ticker = [] \<or> length ticker > 10
     \<or> \<not> isalnum (filter (\<lambda>c. c \<noteq> CHR ''-'') (filter (\<lambda>c. c \<noteq> CHR ''.'') ticker))"

subsection \<open>Covered-call trades\<close>

text \<open>
  A stored trade. An \<open>option\<close> field is a key read with \<^verbatim>\<open>.get\<close>: \<open>None\<close> is the missing
  key, except for \<open>close_date\<close> and \<open>close_price\<close>, where it is the stored \<^verbatim>\<open>null\<close>. The
  keys \<^verbatim>\<open>id\<close> and \<^verbatim>\<open>notes\<close> are the fields \<open>t_id\<close> and \<open>t_notes\<close>.
\<close>

record trade =
  t_id :: "int option"
  ticker :: "string option"
  sell_date :: "string option"
  expiry :: string
  strike :: real
  contracts :: int
  premium_per_contract :: real
  premium_total :: "real option"
  delta :: real
  stock_price_at_sell :: "real option"
  status :: "string option"
  close_date :: "string option"
  close_price :: "real option"
  pnl :: "real jval"
  t_notes :: "string option"
  created_at :: string

record call_request =
  rq_ticker :: "string option"
  rq_contracts :: "int arg"
  rq_premium_per_contract :: "real arg"
  rq_strike :: "real arg"
  rq_sell_date :: "string option"
  rq_expiry :: "string option"
  rq_delta :: "real option"
  rq_stock_price :: "real option"
  rq_notes :: "string option"

text \<open>
  \<^verbatim>\<open>api_calls_add()\<close>. The answer is \<open>Inl (status, message)\<close> for a rejected request and
  \<open>Inr trade\<close> for status 201.
\<close>

definition api_calls_add ::
  "req_env \<Rightarrow> call_request \<Rightarrow> trade list \<Rightarrow> trade list \<times> (nat \<times> string + trade)" where
  "api_calls_add env rq trades =
     (let tk = upper (strip (case rq_ticker rq of None \<Rightarrow> ''SPY'' | Some s \<Rightarrow> s)) in
      if invalid_ticker tk
      then (trades, Inl (400, ''Invalid ticker (max 10 alphanumeric chars)''))
      else if rq_contracts rq = Bad
      then (trades, Inl (400, ''Invalid contracts (must be an integer)''))
      else
        (let n = (case rq_contracts rq of Good k \<Rightarrow> k | _ \<Rightarrow> 1) in
         if n \<le> 0 \<or> n > 10000
         then (trades, Inl (400, ''Invalid contracts (must be 1-10,000)''))
         else if rq_premium_per_contract rq = Bad
         then (trades, Inl (400, ''Invalid premium (must be a number)''))
         else
           (let premium_per = (case rq_premium_per_contract rq of Good x \<Rightarrow> x | _ \<Rightarrow> 0) in
            if premium_per < 0 \<or> premium_per > 10000
            then (trades, Inl (400, ''Invalid premium (must be 0-$10,000)''))
            else if rq_strike rq = Bad
            then (trades, Inl (400, ''Invalid strike (must be a number)''))
            else
              (let k = (case rq_strike rq of Good x \<Rightarrow> x | _ \<Rightarrow> 0) in
               if k \<le> 0 \<or> k > 100000
               then (trades, Inl (400, ''Invalid strike (must be positive, max $100k)''))
               else
                 (let t = \<lparr>
                        t_id = Some (next_id (map t_id trades)),
                        ticker = Some tk,
                        sell_date = Some (case rq_sell_date rq of None \<Rightarrow> today env | Some d \<Rightarrow> d),
                        expiry = (case rq_expiry rq of None \<Rightarrow> '''' | Some x \<Rightarrow> x),
                        strike = k,
                        contracts = n,
                        premium_per_contract = premium_per,
                        premium_total = Some (py_round2 (premium_per * of_int n * 100)),
                        delta = (case rq_delta rq of None \<Rightarrow> 1 / 10 | Some x \<Rightarrow> x),
                        stock_price_at_sell =
                          Some (case rq_stock_price rq of None \<Rightarrow> 0 | Some x \<Rightarrow> x),
                        status = Some ''open'',
                        close_date = None,
                        close_price = None,
                        pnl = Null,
                        t_notes = Some (case rq_notes rq of None \<Rightarrow> '''' | Some x \<Rightarrow> x),
                        created_at = now_iso env \<rparr>
                  in (if save_ok env then trades @ [t] else trades, Inr t))))))"

text \<open>\<^verbatim>\<open>api_calls_delete(trade_id)\<close>\<close>

definition api_calls_delete :: "req_env \<Rightarrow> int \<Rightarrow> trade list \<Rightarrow> trade list" where
  "api_calls_delete env trade_id trades =
     (if save_ok env then filter (\<lambda>t. t_id t \<noteq> Some trade_id) trades else trades)"





text \<open>A sequence of add and delete requests on the covered-call store.\<close>

datatype call_op = CallAdd req_env call_request | CallDelete req_env int

fun call_step :: "trade list \<Rightarrow> call_op \<Rightarrow> trade list" where
  "call_step trades (CallAdd env rq) = fst (api_calls_add env rq trades)"
| "call_step trades (CallDelete env trade_id) = api_calls_delete env trade_id trades"

subsection \<open>The summary of the covered calls\<close>







section \<open>Trade tracker: stock positions\<close>

text \<open>
  A stored position; the key \<^verbatim>\<open>k\<close> is the field \<open>p_k\<close>. \<open>p_stop_price = None\<close> is a
  missing key (the summary reads it with \<^verbatim>\<open>.get\<close>); \<open>p_close_date\<close> and \<open>p_close_price\<close>
  are \<open>None\<close> for the stored \<^verbatim>\<open>null\<close>.
\<close>

record position =
  p_id :: "int option"
  p_ticker :: string
  p_account :: "string option"
  p_trade_type :: string
  p_entry_date :: string
  p_entry_price :: real
  p_shares :: int
  p_cost_basis :: real
  p_stop_price :: "real option"
  p_target_price :: real
  p_setup_type :: string
  p_status :: string
  p_close_date :: "string option"
  p_close_price :: "real option"
  p_pnl :: "real jval"
  p_notes :: string
  p_created_at :: string

text \<open>
  The body of a request to add a position. For the two optional prices, \<open>Missing\<close> is a
  missing key or a value that is false in Python (\<^verbatim>\<open>null\<close>, \<^verbatim>\<open>0\<close>, the empty string): the
  conversion is then not attempted.
\<close>

record position_request =
  pq_ticker :: "string option"
  pq_shares :: "int arg"
  pq_entry_price :: "real arg"
  pq_stop_price :: "real arg"
  pq_target_price :: "real arg"
  pq_trade_type :: "string option"
  pq_account :: "string option"
  pq_entry_date :: "string option"
  pq_setup_type :: "string option"
  pq_notes :: "string option"

text \<open>
  \<^verbatim>\<open>api_positions_add()\<close>. A \<^verbatim>\<open>float\<close> that raises on an optional price is caught by the
  outer \<^verbatim>\<open>except Exception\<close> (status 500).
\<close>

definition api_positions_add ::
  "req_env \<Rightarrow> position_request \<Rightarrow> position list
     \<Rightarrow> position list \<times> (nat \<times> string + position)" where
  "api_positions_add env rq positions =
     (let tk = upper (strip (case pq_ticker rq of None \<Rightarrow> '''' | Some s \<Rightarrow> s)) in
      if invalid_ticker tk
      then (positions, Inl (400, ''Invalid ticker (max 10 alphanumeric chars)''))
      else if pq_shares rq = Bad
      then (positions, Inl (400, ''Invalid shares (must be an integer)''))
      else
        (let n = (case pq_shares rq of Good k \<Rightarrow> k | _ \<Rightarrow> 0) in
         if n \<le> 0 \<or> n > 1000000
         then (positions, Inl (400, ''Invalid shares (must be 1-1,000,000)''))
         else if pq_entry_price rq = Bad
         then (positions, Inl (400, ''Invalid entry price (must be a number)''))
         else
           (let entry = (case pq_entry_price rq of Good x \<Rightarrow> x | _ \<Rightarrow> 0) in
            if entry \<le> 0 \<or> entry > 100000
            then (positions, Inl (400, ''Invalid entry price (must be positive, max $100k)''))
            else if pq_stop_price rq = Bad \<or> pq_target_price rq = Bad
            then (positions, Inl (500, ''Server error''))
            else
              (let stop_price = (case pq_stop_price rq of Good x \<Rightarrow> x | _ \<Rightarrow> 0);
                   target_price = (case pq_target_price rq of Good x \<Rightarrow> x | _ \<Rightarrow> 0);
                   trade_type = (case pq_trade_type rq of None \<Rightarrow> ''long'' | Some x \<Rightarrow> x)
               in
               if trade_type \<notin> set [''long'', ''short'']
               then (positions, Inl (400, ''Invalid trade_type (must be long or short)''))
               else
                 (let p = \<lparr>
                        p_id = Some (next_id (map p_id positions)),
                        p_ticker = tk,
                        p_account = Some (case pq_account rq of None \<Rightarrow> ''default'' | Some x \<Rightarrow> x),
                        p_trade_type = trade_type,
                        p_entry_date = (case pq_entry_date rq of None \<Rightarrow> today env | Some d \<Rightarrow> d),
                        p_entry_price = entry,
                        p_shares = n,
                        p_cost_basis = py_round2 (of_int n * entry),
                        p_stop_price = Some stop_price,
                        p_target_price = target_price,
                        p_setup_type = (case pq_setup_type rq of None \<Rightarrow> '''' | Some x \<Rightarrow> x),
                        p_status = ''open'',
                        p_close_date = None,
                        p_close_price = None,
                        p_pnl = Null,
                        p_notes = (case pq_notes rq of None \<Rightarrow> '''' | Some x \<Rightarrow> x),
                        p_created_at = now_iso env \<rparr>
                  in (if save_ok env then positions @ [p] else positions, Inr p))))))"

text \<open>\<^verbatim>\<open>api_positions_delete(position_id)\<close>\<close>

definition api_positions_delete :: "req_env \<Rightarrow> int \<Rightarrow> position list \<Rightarrow> position list" where
  "api_positions_delete env position_id positions =
     (if save_ok env then filter (\<lambda>p. p_id p \<noteq> Some position_id) positions else positions)"

text \<open>The body of a \<^verbatim>\<open>PATCH\<close> request: \<open>None\<close> is a key that is not in \<^verbatim>\<open>data\<close>.\<close>

record update_request =
  up_stop_price :: "real option"
  up_close_price :: "real option"
  up_close_date :: "string option"
  up_notes :: "string option"

text \<open>The body of the loop of \<^verbatim>\<open>api_positions_update\<close> for the matching position.\<close>

definition update_position :: "req_env \<Rightarrow> update_request \<Rightarrow> position \<Rightarrow> position" where
  "update_position env rq p =
     (let p1 = (case up_stop_price rq of None \<Rightarrow> p | Some s \<Rightarrow> p\<lparr>p_stop_price := Some s\<rparr>);
          p2 = (case up_close_price rq of
                  None \<Rightarrow> p1
                | Some c \<Rightarrow>
                    p1\<lparr>p_status := ''closed'',
                       p_close_price := Some c,
                       p_close_date :=
                         Some (case up_close_date rq of None \<Rightarrow> today env | Some d \<Rightarrow> d),
                       p_pnl :=
                         Val (if p_trade_type p1 = ''long''
                              then py_round2 ((c - p_entry_price p1) * of_int (p_shares p1))
                              else py_round2 ((p_entry_price p1 - c) * of_int (p_shares p1)))\<rparr>)
      in case up_notes rq of None \<Rightarrow> p2 | Some x \<Rightarrow> p2\<lparr>p_notes := x\<rparr>)"

fun update_first :: "req_env \<Rightarrow> int \<Rightarrow> update_request \<Rightarrow> position list \<Rightarrow> position list" where
  "update_first env position_id rq [] = []"
| "update_first env position_id rq (p # ps) =
     (if p_id p = Some position_id then update_position env rq p # ps
      else p # update_first env position_id rq ps)"

text \<open>\<^verbatim>\<open>api_positions_update(position_id)\<close>\<close>

definition api_positions_update ::
  "req_env \<Rightarrow> int \<Rightarrow> update_request \<Rightarrow> position list \<Rightarrow> position list" where
  "api_positions_update env position_id rq positions =
     (if save_ok env then update_first env position_id rq positions else positions)"

text \<open>A sequence of add and delete requests on the position store.\<close>

datatype position_op = PositionAdd req_env position_request | PositionDelete req_env int

fun position_step :: "position list \<Rightarrow> position_op \<Rightarrow> position list" where
  "position_step positions (PositionAdd env rq) = fst (api_positions_add env rq positions)"
| "position_step positions (PositionDelete env position_id) =
     api_positions_delete env position_id positions"

subsection \<open>The summary of the positions\<close>

record position_stats =
  ps_total_capital :: real
  ps_total_pnl :: real
  ps_open_count :: nat
  ps_closed_count :: nat
  ps_win_count :: nat
  ps_loss_count :: nat
  ps_win_rate :: real
  ps_avg_r_multiple :: real

text \<open>
  One round of the loop that fills \<^verbatim>\<open>r_multiples\<close>: \<open>Inr None\<close> when nothing is appended,
  \<open>Inr (Some r)\<close> when \<open>r\<close> is, and \<^verbatim>\<open>TypeError\<close> when \<^verbatim>\<open>p['close_price']\<close> is \<^verbatim>\<open>None\<close>.
\<close>

definition r_multiple :: "position \<Rightarrow> py_error + real option" where
  "r_multiple p =
     (let risk = \<bar>p_entry_price p
                   - (case p_stop_price p of None \<Rightarrow> p_entry_price p | Some s \<Rightarrow> s)\<bar>
      in if risk > 0 then
           (case p_close_price p of
              None \<Rightarrow> Inl TypeError
            | Some c \<Rightarrow>
                (let pnl_per_share = (if p_trade_type p = ''long'' then c - p_entry_price p
                                      else p_entry_price p - c)
                 in Inr (Some (pnl_per_share / risk))))
         else Inr None)"

text \<open>The inner function \<^verbatim>\<open>_summarize(subset)\<close> of \<^verbatim>\<open>_positions_summary\<close>.\<close>

definition positions_summarize :: "position list \<Rightarrow> py_error + position_stats" where
  "positions_summarize sub =
     (if sub = [] then
        Inr \<lparr>ps_total_capital = 0, ps_total_pnl = 0, ps_open_count = 0, ps_closed_count = 0,
             ps_win_count = 0, ps_loss_count = 0, ps_win_rate = 0, ps_avg_r_multiple = 0\<rparr>
      else
        (let open_positions = filter (\<lambda>p. p_status p = ''open'') sub;
             closed_positions = filter (\<lambda>p. p_status p = ''closed'') sub
         in case collect (map (\<lambda>p. case get_pnl (p_pnl p) 0 of
                                      None \<Rightarrow> Inl TypeError | Some v \<Rightarrow> Inr v) closed_positions) of
              Inl err \<Rightarrow> Inl err
            | Inr pnls \<Rightarrow>
                (case collect (map r_multiple closed_positions) of
                   Inl err \<Rightarrow> Inl err
                 | Inr rs \<Rightarrow>
                     (let wins = filter (\<lambda>v. v > 0) pnls;
                          losses = filter (\<lambda>v. v \<le> 0) pnls;
                          r_multiples = concat (map (\<lambda>r. case r of None \<Rightarrow> [] | Some v \<Rightarrow> [v]) rs)
                      in Inr \<lparr>
                           ps_total_capital = sum_list (map p_cost_basis open_positions),
                           ps_total_pnl = sum_list pnls,
                           ps_open_count = length open_positions,
                           ps_closed_count = length closed_positions,
                           ps_win_count = length wins,
                           ps_loss_count = length losses,
                           ps_win_rate =
                             (if closed_positions \<noteq> []
                              then of_nat (length wins) / of_nat (length closed_positions) * 100
                              else 0),
                           ps_avg_r_multiple =
                             (if r_multiples \<noteq> []
                              then sum_list r_multiples / of_nat (length r_multiples)
                              else 0)\<rparr>))))"

record positions_summary_result =
  pos_overall :: position_stats
  accounts :: "string list"
  by_account :: "(string \<times> position_stats) list"

text \<open>
  \<^verbatim>\<open>_positions_summary(positions)\<close>. \<^verbatim>\<open>sorted(set(...))\<close> is the sorted list without
  repetitions; the dictionary \<^verbatim>\<open>by_account\<close> is the list of its entries in the order of
  \<^verbatim>\<open>accounts\<close>.
\<close>

definition positions_summary :: "position list \<Rightarrow> py_error + positions_summary_result" where
  "positions_summary positions =
     (case positions_summarize positions of
        Inl err \<Rightarrow> Inl err
      | Inr all_positions \<Rightarrow>
          (let account_of = (\<lambda>p. case p_account p of None \<Rightarrow> ''default'' | Some a \<Rightarrow> a);
               accs = (if positions \<noteq> [] then sort (remdups (map account_of positions)) else [])
           in case collect (map (\<lambda>acc. positions_summarize
                                          (filter (\<lambda>p. account_of p = acc) positions)) accs) of
                Inl err \<Rightarrow> Inl err
              | Inr stats \<Rightarrow>
                  Inr \<lparr>pos_overall = all_positions, accounts = accs, by_account = zip accs stats\<rparr>))"

section \<open>Concrete values\<close>

text \<open>Concrete values used to run the definitions.\<close>

definition cfg0 :: config where
  "cfg0 = \<lparr>SHEET_ID = ''sheet-1'', GOG_ACCOUNT = ''me@example.org'', CACHE_DURATION = 300\<rparr>"

definition sheet0 :: "string list list" where
  "sheet0 =
     [[''CANSLIM'', '''', ''2024-01-02 09:30''],
      [''Uptrend'', '''', ''3'', '''', ''YES''],
      [''100000'', '''', ''1000'', '''', ''2''],
      [],
      [''Ticker'', ''Pivot'', ''Stop'', ''Shares''],
      [''AAPL'', ''10.5'', ''7.5''],
      [''x''],
      [''MSFT'', ''400'', ''380'', ''7''],
      [''TSLA'', ''n/a'', ''5'']]"

definition snap0 :: snapshot where
  "snap0 = \<lparr>
     scan_time = ''2024-01-02 09:30'',
     market = \<lparr>regime = ''Uptrend'', dist_days = ''3'', buy_ok = ''YES''\<rparr>,
     account = \<lparr>balance = ''100000'', risk_per_trade = ''1000'', actionable = ''2''\<rparr>,
     headers = [''Ticker'', ''Pivot'', ''Stop'', ''Shares''],
     stocks = [[(''Ticker'', ''AAPL''), (''Pivot'', ''10.5''), (''Stop'', ''7.5''), (''Shares'', '''')],
               [(''Ticker'', ''MSFT''), (''Pivot'', ''400''), (''Stop'', ''380''), (''Shares'', ''7'')],
               [(''Ticker'', ''TSLA''), (''Pivot'', ''n/a''), (''Stop'', ''5''), (''Shares'', '''')]],
     cache_time = 0\<rparr>"

definition world1 :: world where
  "world1 = \<lparr>cache = \<lparr>data = Some snap0, timestamp = 1000,
                         last_scan_time = Some ''2024-01-02 09:30''\<rparr>,
              history = [(''scan_2024-01-02_0931.json'', snap0)]\<rparr>"

definition env0 :: req_env where
  "env0 = \<lparr>today = ''2024-01-02'', now_iso = ''2024-01-02T09:30:00'', save_ok = True\<rparr>"

definition rq_spy :: call_request where
  "rq_spy = \<lparr>rq_ticker = None, rq_contracts = Good 10, rq_premium_per_contract = Good (5 / 2),
             rq_strike = Good 105, rq_sell_date = None, rq_expiry = Some ''2024-01-19'',
             rq_delta = None, rq_stock_price = Some 100, rq_notes = None\<rparr>"

definition trade_spy :: trade where
  "trade_spy = \<lparr>t_id = Some 1, ticker = Some ''SPY'', sell_date = Some ''2024-01-02'',
                expiry = ''2024-01-19'', strike = 105, contracts = 10,
                premium_per_contract = 5 / 2, premium_total = Some 2500, delta = 1 / 10,
                stock_price_at_sell = Some 100, status = Some ''open'', close_date = None,
                close_price = None, pnl = Null, t_notes = Some '''',
                created_at = ''2024-01-02T09:30:00''\<rparr>"

definition rq_aapl :: call_request where
  "rq_aapl = \<lparr>rq_ticker = Some '' aapl '', rq_contracts = Missing,
              rq_premium_per_contract = Good (6 / 5), rq_strike = Good (10000001 / 100000),
              rq_sell_date = Some ''2024-02-05'', rq_expiry = None, rq_delta = Some (1 / 5),
              rq_stock_price = Some 100, rq_notes = Some ''weekly''\<rparr>"

definition trade_aapl :: trade where
  "trade_aapl = \<lparr>t_id = Some 2, ticker = Some ''AAPL'', sell_date = Some ''2024-02-05'',
                 expiry = '''', strike = 10000001 / 100000, contracts = 1,
                 premium_per_contract = 6 / 5, premium_total = Some 120, delta = 1 / 5,
                 stock_price_at_sell = Some 100, status = Some ''open'', close_date = None,
                 close_price = None, pnl = Null, t_notes = Some ''weekly'',
                 created_at = ''2024-01-02T09:30:00''\<rparr>"


definition pq_msft :: position_request where
  "pq_msft = \<lparr>pq_ticker = Some ''msft'', pq_shares = Good 10, pq_entry_price = Good 50,
              pq_stop_price = Missing, pq_target_price = Missing, pq_trade_type = None,
              pq_account = None, pq_entry_date = None, pq_setup_type = None, pq_notes = None\<rparr>"

definition position_msft :: position where
  "position_msft = \<lparr>p_id = Some 1, p_ticker = ''MSFT'', p_account = Some ''default'',
                    p_trade_type = ''long'', p_entry_date = ''2024-01-02'', p_entry_price = 50,
                    p_shares = 10, p_cost_basis = 500, p_stop_price = Some 0, p_target_price = 0,
                    p_setup_type = '''', p_status = ''open'', p_close_date = None,
                    p_close_price = None, p_pnl = Null, p_notes = '''',
                    p_created_at = ''2024-01-02T09:30:00''\<rparr>"

definition up_close60 :: update_request where
  "up_close60 = \<lparr>up_stop_price = None, up_close_price = Some 60,
                 up_close_date = Some ''2024-01-10'', up_notes = None\<rparr>"



definition closed_stats :: "real \<Rightarrow> position_stats" where
  "closed_stats r =
     \<lparr>ps_total_capital = 0, ps_total_pnl = 100, ps_open_count = 0, ps_closed_count = 1,
      ps_win_count = 1, ps_loss_count = 0, ps_win_rate = 100, ps_avg_r_multiple = r\<rparr>"

section \<open>Theorems\<close>

subsection \<open>Sheets that are too short\<close>

text \<open>
  Claim C8. For every input array with fewer than 5 rows, the empty array included,
  \<^const>\<open>parse_sheet_data\<close> yields no snapshot (Python's \<^verbatim>\<open>None\<close>). The embedded function
  has no raising branch at all, so the result \<open>None\<close> is a normal return.
\<close>

theorem parse_sheet_data_short:
  "length raw_values < 5 \<Longrightarrow> parse_sheet_data c raw_values = None"
  by (simp add: parse_sheet_data_def)

theorem parse_sheet_data_short_witness:
  "length [[''Scan'', '''', ''2024-01-02 09:30''], [''Uptrend'']] < 5
   \<and> parse_sheet_data \<lparr>data = None, timestamp = 0, last_scan_time = None\<rparr>
         [[''Scan'', '''', ''2024-01-02 09:30''], [''Uptrend'']] = None"
  using parse_sheet_data_short
    [of "[[''Scan'', '''', ''2024-01-02 09:30''], [''Uptrend'']]"
        "\<lparr>data = None, timestamp = 0, last_scan_time = None\<rparr>"]
  by simp

subsection \<open>Running the cache gate on concrete values\<close>



lemma fetch_ok: "fetch_sheet_data cfg0 (Completed 0 (Values v)) = Some v"
  by (simp add: fetch_sheet_data_def cfg0_def)

lemma fetch_fail: "fetch_sheet_data cfg0 Raised = None"
  by (simp add: fetch_sheet_data_def cfg0_def)

lemma cfg0_duration: "CACHE_DURATION cfg0 = 300"
  by (simp add: cfg0_def)

subsection \<open>A successful fresh fetch\<close>







text \<open>
  Claim C7, as amended. With a snapshot in the cache, a failing fetch leaves the whole
  state (the cached snapshot and its timestamp included) as it is and the gate returns
  the stale snapshot. The failure itself is not reported: the result is the very value a
  cache hit returns, and it differs from the no-data case only in being a snapshot
  rather than \<^verbatim>\<open>None\<close>.
\<close>

theorem stale_snapshot_kept_on_fetch_failure:
  assumes "data (cache w) = Some s" and "fetch_sheet_data cfg (gog e) = None"
  shows "get_cached_data cfg e force_refresh w = (w, Some s)
         \<and> (\<forall>e'. \<not> current_time e' - timestamp (cache w) > of_int (CACHE_DURATION cfg)
                \<longrightarrow> get_cached_data cfg e' False w = get_cached_data cfg e force_refresh w)"
  using assms by (simp add: get_cached_data_def)

theorem stale_snapshot_kept_on_fetch_failure_witness:
  "get_cached_data cfg0 \<lparr>current_time = 5000, gog = Raised, snapshot_file = None\<rparr> True world1
     = (world1, Some snap0)"
proof -
  have "data (cache world1) = Some snap0"
    by (simp add: world1_def)
  moreover have "fetch_sheet_data cfg0
      (gog \<lparr>current_time = 5000, gog = Raised, snapshot_file = None\<rparr>) = None"
    by (simp add: fetch_fail)
  ultimately show ?thesis
    using stale_snapshot_kept_on_fetch_failure by blast
qed

text \<open>
  The claim as stated asks that the failure be reported to the caller. At a concrete
  state the caller of a forced refresh whose fetch raised receives exactly what the
  caller of a cache hit receives, and the refresh route answers with the snapshot.
\<close>

theorem fetch_failure_not_reported_counterexample:
  "get_cached_data cfg0 \<lparr>current_time = 5000, gog = Raised, snapshot_file = None\<rparr> True world1
     = get_cached_data cfg0 \<lparr>current_time = 1001, gog = Completed 0 (Values sheet0),
                              snapshot_file = Some ''f''\<rparr> False world1
   \<and> api_refresh cfg0 \<lparr>current_time = 5000, gog = Raised, snapshot_file = None\<rparr> world1
     = (world1, Inr snap0)"
  by (simp add: get_cached_data_def api_refresh_def fetch_fail world1_def cfg0_duration)

text \<open>
  Claim C10, as amended. When the gate fetches and the fetch returns a non-empty array
  of fewer than 5 rows, the cached snapshot is overwritten with \<^verbatim>\<open>None\<close>, the timestamp
  is set to the time of the call, and the caller receives \<^verbatim>\<open>None\<close>. When the fetch
  returns the empty array, the state is left as it is and the caller receives what the
  cache holds.
\<close>

theorem short_sheet_discards_cached_snapshot:
  assumes "force_refresh \<or> data (cache w) = None
             \<or> current_time e - timestamp (cache w) > of_int (CACHE_DURATION cfg)"
  shows "(fetch_sheet_data cfg (gog e) = Some raw \<and> raw \<noteq> [] \<and> length raw < 5
            \<longrightarrow> get_cached_data cfg e force_refresh w =
                  (w\<lparr>cache := (cache w)\<lparr>data := None, timestamp := current_time e\<rparr>\<rparr>, None))
         \<and> (fetch_sheet_data cfg (gog e) = Some []
            \<longrightarrow> get_cached_data cfg e force_refresh w = (w, data (cache w)))"
  using assms by (simp add: get_cached_data_def parse_sheet_data_def)

theorem short_sheet_discards_cached_snapshot_witness:
  "get_cached_data cfg0 \<lparr>current_time = 5000, gog = Completed 0 (Values [[''CANSLIM'']]),
                          snapshot_file = None\<rparr> False world1
     = (\<lparr>cache = \<lparr>data = None, timestamp = 5000, last_scan_time = Some ''2024-01-02 09:30''\<rparr>,
         history = [(''scan_2024-01-02_0931.json'', snap0)]\<rparr>, None)
   \<and> get_cached_data cfg0 \<lparr>current_time = 5000, gog = Completed 0 NoValues,
                            snapshot_file = None\<rparr> False world1
     = (world1, Some snap0)"
proof -
  let ?e = "\<lparr>current_time = 5000, gog = Completed 0 (Values [[''CANSLIM'']]),
             snapshot_file = None\<rparr>"
  let ?e' = "\<lparr>current_time = 5000, gog = Completed 0 NoValues, snapshot_file = None\<rparr>"
  have stale: "False \<or> data (cache world1) = None
                 \<or> current_time ?e - timestamp (cache world1) > of_int (CACHE_DURATION cfg0)"
    and stale': "False \<or> data (cache world1) = None
                 \<or> current_time ?e' - timestamp (cache world1) > of_int (CACHE_DURATION cfg0)"
    by (simp_all add: world1_def cfg0_duration)
  have short: "fetch_sheet_data cfg0 (gog ?e) = Some [[''CANSLIM'']] \<and> [[''CANSLIM'']] \<noteq> []
               \<and> length [[''CANSLIM'']] < 5"
    by (simp add: fetch_ok)
  have empty: "fetch_sheet_data cfg0 (gog ?e') = Some []"
    by (simp add: fetch_sheet_data_def cfg0_def)
  from short_sheet_discards_cached_snapshot [OF stale, of "[[''CANSLIM'']]"] short
  have "get_cached_data cfg0 ?e False world1 =
     (world1\<lparr>cache := (cache world1)\<lparr>data := None, timestamp := current_time ?e\<rparr>\<rparr>, None)"
    by blast
  moreover
  from short_sheet_discards_cached_snapshot [OF stale', of "[]"] empty
  have "get_cached_data cfg0 ?e' False world1 = (world1, data (cache world1))"
    by blast
  ultimately show ?thesis
    by (simp add: world1_def)
qed

text \<open>
  The empty array also parses to no snapshot, and a fetch can return it (a finished run
  whose output has no values), but \<^verbatim>\<open>if raw_data:\<close> treats it as a failed fetch: the
  stale snapshot stays in the cache and is returned.
\<close>

theorem empty_sheet_keeps_cached_snapshot_counterexample:
  "fetch_sheet_data cfg0 (Completed 0 (Values [])) = Some []
   \<and> parse_sheet_data (cache world1) [] = None
   \<and> get_cached_data cfg0 \<lparr>current_time = 5000, gog = Completed 0 (Values []),
                            snapshot_file = None\<rparr> True world1
     = (world1, Some snap0)"
  by (simp add: get_cached_data_def fetch_ok parse_sheet_data_def world1_def)

subsection \<open>Position sizing\<close>










subsection \<open>Running the trade tracker on concrete values\<close>

lemma add_spy: "api_calls_add env0 rq_spy [] = ([trade_spy], Inr trade_spy)"
  by (simp add: api_calls_add_def rq_spy_def env0_def trade_spy_def upper_def strip_def
        is_space_def invalid_ticker_def isalnum_def next_id_def get_id_def py_round2_def
        round_half_even_def Let_def)

lemma add_aapl:
  "api_calls_add env0 rq_aapl [trade_spy] = ([trade_spy, trade_aapl], Inr trade_aapl)"
  by (simp add: api_calls_add_def rq_aapl_def env0_def trade_aapl_def upper_def strip_def
        is_space_def invalid_ticker_def isalnum_def next_id_def get_id_def py_round2_def
        round_half_even_def Let_def trade_spy_def)

lemma add_msft: "api_positions_add env0 pq_msft [] = ([position_msft], Inr position_msft)"
  by (simp add: api_positions_add_def pq_msft_def env0_def position_msft_def upper_def strip_def
        is_space_def invalid_ticker_def isalnum_def next_id_def get_id_def py_round2_def
        round_half_even_def Let_def)

subsection \<open>Identifiers\<close>

lemma next_id_Max:
  "next_id ids = (if ids = [] then 0 else Max (set (map get_id ids))) + 1"
proof (cases ids)
  case Nil
  then show ?thesis by (simp add: next_id_def)
next
  case (Cons a list)
  have "fold max (map get_id list) (get_id a) = Max (set (get_id a # map get_id list))"
    by (simp only: Max.set_eq_fold)
  with Cons show ?thesis by (simp add: next_id_def)
qed

lemma next_id_greater: "i \<in> set ids \<Longrightarrow> get_id i < next_id ids"
proof -
  assume "i \<in> set ids"
  then have "get_id i \<le> Max (set (map get_id ids))" and "ids \<noteq> []"
    by auto
  then show ?thesis
    by (simp add: next_id_Max)
qed

lemma increasing_append_next_id:
  assumes "sorted_wrt (<) (map get_id ids)"
  shows "sorted_wrt (<) (map get_id (ids @ [Some (next_id ids)]))"
proof -
  have "\<forall>x \<in> set ids. get_id x < get_id (Some (next_id ids))"
    using next_id_greater by (simp add: get_id_def)
  with assms show ?thesis
    by (simp add: sorted_wrt_append)
qed

lemma api_calls_add_store:
  "fst (api_calls_add env rq trades) = trades
   \<or> (\<exists>t. fst (api_calls_add env rq trades) = trades @ [t]
           \<and> t_id t = Some (next_id (map t_id trades)))"
  by (simp add: api_calls_add_def Let_def)

lemma api_calls_add_new:
  assumes "api_calls_add env rq trades = (trades', Inr t)"
  shows "t_id t = Some (next_id (map t_id trades))"
  using assms by (auto simp add: api_calls_add_def Let_def split: if_splits)

lemma api_positions_add_store:
  "fst (api_positions_add env rq positions) = positions
   \<or> (\<exists>p. fst (api_positions_add env rq positions) = positions @ [p]
           \<and> p_id p = Some (next_id (map p_id positions)))"
  by (simp add: api_positions_add_def Let_def)

lemma api_positions_add_new:
  assumes "api_positions_add env rq positions = (positions', Inr p)"
  shows "p_id p = Some (next_id (map p_id positions))"
  using assms by (auto simp add: api_positions_add_def Let_def split: if_splits)

lemma call_step_increasing:
  assumes "sorted_wrt (<) (map (\<lambda>t. get_id (t_id t)) trades)"
  shows "sorted_wrt (<) (map (\<lambda>t. get_id (t_id t)) (call_step trades op))"
proof (cases op)
  case (CallAdd env rq)
  from api_calls_add_store [of env rq trades] show ?thesis
  proof
    assume "fst (api_calls_add env rq trades) = trades"
    with assms CallAdd show ?thesis by simp
  next
    assume "\<exists>t. fst (api_calls_add env rq trades) = trades @ [t]
                 \<and> t_id t = Some (next_id (map t_id trades))"
    then obtain t where t: "fst (api_calls_add env rq trades) = trades @ [t]"
      and i: "t_id t = Some (next_id (map t_id trades))"
      by blast
    from assms have "sorted_wrt (<) (map get_id (map t_id trades))"
      by (simp add: comp_def)
    from increasing_append_next_id [OF this] show ?thesis
      using CallAdd t i by (simp add: comp_def)
  qed
next
  case (CallDelete env trade_id)
  with assms show ?thesis
    by (simp add: api_calls_delete_def sorted_wrt_map sorted_wrt_filter)
qed

lemma position_step_increasing:
  assumes "sorted_wrt (<) (map (\<lambda>p. get_id (p_id p)) positions)"
  shows "sorted_wrt (<) (map (\<lambda>p. get_id (p_id p)) (position_step positions op))"
proof (cases op)
  case (PositionAdd env rq)
  from api_positions_add_store [of env rq positions] show ?thesis
  proof
    assume "fst (api_positions_add env rq positions) = positions"
    with assms PositionAdd show ?thesis by simp
  next
    assume "\<exists>p. fst (api_positions_add env rq positions) = positions @ [p]
                 \<and> p_id p = Some (next_id (map p_id positions))"
    then obtain p where p: "fst (api_positions_add env rq positions) = positions @ [p]"
      and i: "p_id p = Some (next_id (map p_id positions))"
      by blast
    from assms have "sorted_wrt (<) (map get_id (map p_id positions))"
      by (simp add: comp_def)
    from increasing_append_next_id [OF this] show ?thesis
      using PositionAdd p i by (simp add: comp_def)
  qed
next
  case (PositionDelete env position_id)
  with assms show ?thesis
    by (simp add: api_positions_delete_def sorted_wrt_map sorted_wrt_filter)
qed

lemma call_steps_increasing:
  "sorted_wrt (<) (map (\<lambda>t. get_id (t_id t)) trades)
   \<Longrightarrow> sorted_wrt (<) (map (\<lambda>t. get_id (t_id t)) (foldl call_step trades ops))"
  by (induction ops arbitrary: trades) (simp_all add: call_step_increasing)

lemma position_steps_increasing:
  "sorted_wrt (<) (map (\<lambda>p. get_id (p_id p)) positions)
   \<Longrightarrow> sorted_wrt (<) (map (\<lambda>p. get_id (p_id p)) (foldl position_step positions ops))"
  by (induction ops arbitrary: positions) (simp_all add: position_step_increasing)

text \<open>
  Claim C3, as amended. In both stores a request that adds an entity gives it the id
  \<^verbatim>\<open>max(existing ids, default 0) + 1\<close>, which is greater than the id of every entity in
  the store at that moment; so over every sequence of add and delete requests the ids
  in the store stay strictly increasing in list order, and no two stored entities ever
  share one. (An id that left the store with its entity can be assigned again.)
\<close>

theorem ids_max_plus_one_no_collision:
  "(api_calls_add env rq trades = (trades', Inr t)
      \<longrightarrow> t_id t = Some ((if trades = [] then 0
                           else Max (set (map (\<lambda>u. get_id (t_id u)) trades))) + 1)
          \<and> (\<forall>u \<in> set trades. get_id (t_id u) < get_id (t_id t)))
   \<and> (sorted_wrt (<) (map (\<lambda>u. get_id (t_id u)) trades)
      \<longrightarrow> sorted_wrt (<) (map (\<lambda>u. get_id (t_id u)) (foldl call_step trades ops))
          \<and> distinct (map (\<lambda>u. get_id (t_id u)) (foldl call_step trades ops)))
   \<and> (api_positions_add penv prq positions = (positions', Inr p)
      \<longrightarrow> p_id p = Some ((if positions = [] then 0
                           else Max (set (map (\<lambda>q. get_id (p_id q)) positions))) + 1)
          \<and> (\<forall>q \<in> set positions. get_id (p_id q) < get_id (p_id p)))
   \<and> (sorted_wrt (<) (map (\<lambda>q. get_id (p_id q)) positions)
      \<longrightarrow> sorted_wrt (<) (map (\<lambda>q. get_id (p_id q)) (foldl position_step positions pops))
          \<and> distinct (map (\<lambda>q. get_id (p_id q)) (foldl position_step positions pops)))"
proof -
  have a: "t_id t = Some ((if trades = [] then 0
                           else Max (set (map (\<lambda>u. get_id (t_id u)) trades))) + 1)
           \<and> (\<forall>u \<in> set trades. get_id (t_id u) < get_id (t_id t))"
    if "api_calls_add env rq trades = (trades', Inr t)"
  proof -
    from api_calls_add_new [OF that] have i: "t_id t = Some (next_id (map t_id trades))" .
    then have "t_id t = Some ((if trades = [] then 0
                           else Max (set (map (\<lambda>u. get_id (t_id u)) trades))) + 1)"
      by (simp add: next_id_Max comp_def)
    moreover have "\<forall>u \<in> set trades. get_id (t_id u) < get_id (t_id t)"
      using i next_id_greater [of _ "map t_id trades"] by (simp add: get_id_def)
    ultimately show ?thesis by blast
  qed
  have b: "sorted_wrt (<) (map (\<lambda>u. get_id (t_id u)) (foldl call_step trades ops))
           \<and> distinct (map (\<lambda>u. get_id (t_id u)) (foldl call_step trades ops))"
    if "sorted_wrt (<) (map (\<lambda>u. get_id (t_id u)) trades)"
    using call_steps_increasing [OF that] strict_sorted_iff by blast
  have c: "p_id p = Some ((if positions = [] then 0
                           else Max (set (map (\<lambda>q. get_id (p_id q)) positions))) + 1)
           \<and> (\<forall>q \<in> set positions. get_id (p_id q) < get_id (p_id p))"
    if "api_positions_add penv prq positions = (positions', Inr p)"
  proof -
    from api_positions_add_new [OF that] have i: "p_id p = Some (next_id (map p_id positions))" .
    then have "p_id p = Some ((if positions = [] then 0
                           else Max (set (map (\<lambda>q. get_id (p_id q)) positions))) + 1)"
      by (simp add: next_id_Max comp_def)
    moreover have "\<forall>q \<in> set positions. get_id (p_id q) < get_id (p_id p)"
      using i next_id_greater [of _ "map p_id positions"] by (simp add: get_id_def)
    ultimately show ?thesis by blast
  qed
  have d: "sorted_wrt (<) (map (\<lambda>q. get_id (p_id q)) (foldl position_step positions pops))
           \<and> distinct (map (\<lambda>q. get_id (p_id q)) (foldl position_step positions pops))"
    if "sorted_wrt (<) (map (\<lambda>q. get_id (p_id q)) positions)"
    using position_steps_increasing [OF that] strict_sorted_iff by blast
  from a b c d show ?thesis by blast
qed

theorem ids_max_plus_one_no_collision_witness:
  "t_id trade_aapl = Some 2
   \<and> get_id (t_id trade_spy) < get_id (t_id trade_aapl)
   \<and> distinct (map (\<lambda>u. get_id (t_id u))
        (foldl call_step [trade_spy]
           [CallAdd env0 rq_aapl, CallDelete env0 2, CallAdd env0 rq_spy]))
   \<and> p_id position_msft = Some 1
   \<and> distinct (map (\<lambda>q. get_id (p_id q))
        (foldl position_step []
           [PositionAdd env0 pq_msft, PositionDelete env0 1, PositionAdd env0 pq_msft]))"
proof -
  let ?ops = "[CallAdd env0 rq_aapl, CallDelete env0 2, CallAdd env0 rq_spy]"
  let ?pops = "[PositionAdd env0 pq_msft, PositionDelete env0 1, PositionAdd env0 pq_msft]"
  note t = ids_max_plus_one_no_collision
    [of env0 rq_aapl "[trade_spy]" "[trade_spy, trade_aapl]" trade_aapl ?ops
        env0 pq_msft "[]" "[position_msft]" position_msft ?pops]
  have h1: "api_calls_add env0 rq_aapl [trade_spy] = ([trade_spy, trade_aapl], Inr trade_aapl)"
    by (rule add_aapl)
  have h2: "sorted_wrt (<) (map (\<lambda>u. get_id (t_id u)) [trade_spy])"
    by simp
  have h3: "api_positions_add env0 pq_msft [] = ([position_msft], Inr position_msft)"
    by (rule add_msft)
  have h4: "sorted_wrt (<) (map (\<lambda>q. get_id (p_id q)) ([] :: position list))"
    by simp
  note t1 = t [THEN conjunct1, rule_format, OF h1]
  note t2 = t [THEN conjunct2, THEN conjunct1, rule_format, OF h2]
  note t3 = t [THEN conjunct2, THEN conjunct2, THEN conjunct1, rule_format, OF h3]
  note t4 = t [THEN conjunct2, THEN conjunct2, THEN conjunct2, rule_format, OF h4]
  from t1 have a: "t_id trade_aapl = Some 2"
    by (simp add: trade_spy_def get_id_def)
  from t1 have b: "get_id (t_id trade_spy) < get_id (t_id trade_aapl)"
    by (simp add: get_id_def)
  from t2 have c: "distinct (map (\<lambda>u. get_id (t_id u)) (foldl call_step [trade_spy] ?ops))"
    by (rule conjunct2)
  from t3 have d: "p_id position_msft = Some 1"
    by simp
  from t4 have e: "distinct (map (\<lambda>q. get_id (p_id q)) (foldl position_step [] ?pops))"
    by (rule conjunct2)
  from a b c d e show ?thesis by blast
qed

text \<open>
  The claim as stated has ids never reused. Two trades are added (ids 1 and 2), the
  trade with the maximum id is deleted, and the next trade added is given id 2 again.
\<close>

theorem id_reused_after_delete_counterexample:
  "map (\<lambda>u. (t_id u, ticker u))
     (foldl call_step [] [CallAdd env0 rq_spy, CallAdd env0 rq_aapl])
     = [(Some 1, Some ''SPY''), (Some 2, Some ''AAPL'')]
   \<and> map (\<lambda>u. (t_id u, ticker u))
       (foldl call_step [] [CallAdd env0 rq_spy, CallAdd env0 rq_aapl,
                            CallDelete env0 2, CallAdd env0 rq_spy])
     = [(Some 1, Some ''SPY''), (Some 2, Some ''SPY'')]"
proof -
  have "api_calls_add env0 rq_spy [trade_spy]
          = ([trade_spy, trade_spy\<lparr>t_id := Some 2\<rparr>], Inr (trade_spy\<lparr>t_id := Some 2\<rparr>))"
    by (simp add: api_calls_add_def rq_spy_def env0_def trade_spy_def upper_def strip_def
        is_space_def invalid_ticker_def isalnum_def next_id_def get_id_def py_round2_def
        round_half_even_def Let_def)
  moreover have "api_calls_delete env0 2 [trade_spy, trade_aapl] = [trade_spy]"
    by (simp add: api_calls_delete_def env0_def trade_spy_def trade_aapl_def)
  ultimately show ?thesis
    by (simp add: add_spy add_aapl) (simp add: trade_spy_def trade_aapl_def)
qed

subsection \<open>Closing a covered call\<close>






subsection \<open>R-multiples in the position summary\<close>


lemma summary_one_closed:
  assumes "p_status p = ''closed''" and "p_pnl p = Val 100" and "p_account p = Some ''default''"
      and "r_multiple p = Inr x"
  shows "positions_summary [p]
           = Inr \<lparr>pos_overall = closed_stats (case x of None \<Rightarrow> 0 | Some v \<Rightarrow> v),
                  accounts = [''default''],
                  by_account = [(''default'', closed_stats (case x of None \<Rightarrow> 0 | Some v \<Rightarrow> v))]\<rparr>"
proof -
  have s: "positions_summarize [p] = Inr (closed_stats (case x of None \<Rightarrow> 0 | Some v \<Rightarrow> v))"
    using assms
    by (cases x) (simp_all add: positions_summarize_def get_pnl_def closed_stats_def Let_def)
  show ?thesis
    using assms(3) by (simp add: positions_summary_def s Let_def)
qed

text \<open>
  Claim C4 on three positions bought at 50 and closed at 60, which differ in their stop.
  A position stored without the key \<^verbatim>\<open>stop_price\<close> has risk 0 and is left out of the
  average, as the claim says, and one with stop 45 has the R-multiple 2. But a position
  added through \<^verbatim>\<open>api_positions_add\<close> with no stop is stored with \<^verbatim>\<open>stop_price\<close> 0, so
  the default of the summary never applies to it: its risk is the entry price and it
  enters the average with an R-multiple of 10 / 50.
\<close>

theorem unset_stop_enters_average:
  "positions_summary
     (api_positions_update env0 1 up_close60 [position_msft\<lparr>p_stop_price := None\<rparr>])
     = Inr \<lparr>pos_overall = closed_stats 0, accounts = [''default''],
            by_account = [(''default'', closed_stats 0)]\<rparr>
   \<and> positions_summary
       (api_positions_update env0 1 up_close60 [position_msft\<lparr>p_stop_price := Some 45\<rparr>])
     = Inr \<lparr>pos_overall = closed_stats 2, accounts = [''default''],
            by_account = [(''default'', closed_stats 2)]\<rparr>
   \<and> api_positions_add env0 pq_msft [] = ([position_msft], Inr position_msft)
   \<and> p_stop_price position_msft = Some 0
   \<and> positions_summary (api_positions_update env0 1 up_close60 [position_msft])
     = Inr \<lparr>pos_overall = closed_stats (1 / 5), accounts = [''default''],
            by_account = [(''default'', closed_stats (1 / 5))]\<rparr>"
proof -
  let ?closed = "\<lambda>s. position_msft\<lparr>p_stop_price := s, p_status := ''closed'',
                    p_close_price := Some 60, p_close_date := Some ''2024-01-10'',
                    p_pnl := Val 100\<rparr>"
  have u: "api_positions_update env0 1 up_close60 [position_msft\<lparr>p_stop_price := s\<rparr>]
             = [?closed s]" for s
    by (simp add: api_positions_update_def env0_def up_close60_def update_position_def
          py_round2_def round_half_even_def position_msft_def)
  have u0: "api_positions_update env0 1 up_close60 [position_msft] = [?closed (Some 0)]"
    using u [of "Some 0"] by (simp add: position_msft_def)
  have f: "p_status (?closed s) = ''closed''" "p_pnl (?closed s) = Val 100"
    "p_account (?closed s) = Some ''default''" for s
    by (simp_all add: position_msft_def)
  have r1: "r_multiple (?closed None) = Inr None"
    and r2: "r_multiple (?closed (Some 45)) = Inr (Some 2)"
    and r3: "r_multiple (?closed (Some 0)) = Inr (Some (1 / 5))"
    by (simp_all add: r_multiple_def position_msft_def)
  have a: "positions_summary [?closed None]
     = Inr \<lparr>pos_overall = closed_stats 0, accounts = [''default''],
            by_account = [(''default'', closed_stats 0)]\<rparr>"
    using summary_one_closed [OF f r1] by simp
  have b: "positions_summary [?closed (Some 45)]
     = Inr \<lparr>pos_overall = closed_stats 2, accounts = [''default''],
            by_account = [(''default'', closed_stats 2)]\<rparr>"
    using summary_one_closed [OF f r2] by simp
  have c: "positions_summary [?closed (Some 0)]
     = Inr \<lparr>pos_overall = closed_stats (1 / 5), accounts = [''default''],
            by_account = [(''default'', closed_stats (1 / 5))]\<rparr>"
    using summary_one_closed [OF f r3] by simp
  have d: "p_stop_price position_msft = Some 0"
    by (simp add: position_msft_def)
  from a b c d show ?thesis
    by (simp only: u u0 add_msft simp_thms)
qed

subsection \<open>Sums over groups\<close>




lemma sum_list_if_absent:
  fixes c :: "'b::comm_monoid_add"
  shows "a \<notin> set ks \<Longrightarrow> sum_list (map (\<lambda>k. if a = k then c else 0) ks) = 0"
  by (induction ks) auto

lemma sum_list_if_key:
  fixes c :: "'b::comm_monoid_add"
  assumes "distinct ks" and "a \<in> set ks"
  shows "sum_list (map (\<lambda>k. if a = k then c else 0) ks) = c"
  using assms by (induction ks) (auto simp: sum_list_if_absent)

lemma sum_list_by_key:
  fixes f :: "'a \<Rightarrow> 'b::comm_monoid_add"
  assumes "distinct ks" and "key ` set xs \<subseteq> set ks"
  shows "sum_list (map (\<lambda>k. sum_list (map f (filter (\<lambda>x. key x = k) xs))) ks)
           = sum_list (map f xs)"
  using assms(2)
proof (induction xs)
  case Nil
  show ?case by simp
next
  case (Cons x xs)
  have split: "sum_list (map f (filter (\<lambda>y. key y = k) (x # xs)))
                 = (if key x = k then f x else 0) + sum_list (map f (filter (\<lambda>y. key y = k) xs))"
    for k by simp
  have "key x \<in> set ks" using Cons.prems by simp
  then have one: "sum_list (map (\<lambda>k. if key x = k then f x else 0) ks) = f x"
    using assms(1) by (rule sum_list_if_key [rotated])
  have "key ` set xs \<subseteq> set ks" using Cons.prems by auto
  then have ih: "sum_list (map (\<lambda>k. sum_list (map f (filter (\<lambda>x. key x = k) xs))) ks)
                   = sum_list (map f xs)"
    by (rule Cons.IH)
  show ?case
    unfolding split by (simp add: sum_list_addf one ih)
qed

lemma length_filter_sum_list:
  "length (filter P xs) = sum_list (map (\<lambda>x. if P x then 1 else 0) xs)"
  by (induction xs) auto

lemma length_by_key:
  assumes "distinct ks" and "key ` set xs \<subseteq> set ks"
  shows "sum_list (map (\<lambda>k. length (filter P (filter (\<lambda>x. key x = k) xs))) ks)
           = length (filter P xs)"
proof -
  have "sum_list (map (\<lambda>k. sum_list (map (\<lambda>x. if P x then 1 else 0)
                                          (filter (\<lambda>x. key x = k) xs))) ks)
          = sum_list (map (\<lambda>x. if P x then 1 else (0::nat)) xs)"
    using assms by (rule sum_list_by_key)
  then show ?thesis
    by (simp only: length_filter_sum_list)
qed

subsection \<open>The covered-call summary by ticker\<close>









subsection \<open>The atomic store\<close>

lemma tmp_path_differs: "filepath @ ''.tmp'' \<noteq> filepath" "filepath @ ''.lock'' \<noteq> filepath"
  by simp_all

lemma save_json_file_ok:
  "snd (save_json_file dumps filepath d fs) \<longleftrightarrow>
     \<not> unwritable fs (filepath @ ''.lock'') \<and> \<not> unwritable fs (filepath @ ''.tmp'')
     \<and> \<not> unwritable fs filepath"
  by (simp add: save_json_file_def Let_def)

lemma save_json_file_target:
  "files (fst (save_json_file dumps filepath d fs)) filepath
     = (if snd (save_json_file dumps filepath d fs) then Some (dumps d) else files fs filepath)"
  by (simp add: save_json_file_def Let_def)

text \<open>
  Claim C5, as amended. If \<^verbatim>\<open>json.loads\<close> reads back what \<^verbatim>\<open>json.dumps\<close> writes for the
  document, and \<^verbatim>\<open>save_json_file\<close> returns \<^verbatim>\<open>True\<close>, then loading the same path returns the
  document, whatever the default. If \<^verbatim>\<open>save_json_file\<close> returns \<^verbatim>\<open>False\<close>, loading the path
  returns what it returned before the save.
\<close>

theorem save_then_load:
  assumes "loads (dumps doc) = Some doc"
  shows "(save_json_file dumps filepath doc fs = (fs', True)
            \<longrightarrow> load_json_file loads filepath dflt fs' = doc)
         \<and> (save_json_file dumps filepath doc fs = (fs', False)
            \<longrightarrow> load_json_file loads filepath dflt fs' = load_json_file loads filepath dflt fs)"
proof -
  have a: "load_json_file loads filepath dflt fs' = doc"
    if "save_json_file dumps filepath doc fs = (fs', True)"
  proof -
    from that have "snd (save_json_file dumps filepath doc fs)"
      and "fs' = fst (save_json_file dumps filepath doc fs)"
      by simp_all
    then have "files fs' filepath = Some (dumps doc)"
      by (simp add: save_json_file_target)
    with assms show ?thesis
      by (simp add: load_json_file_def)
  qed
  have b: "load_json_file loads filepath dflt fs' = load_json_file loads filepath dflt fs"
    if "save_json_file dumps filepath doc fs = (fs', False)"
  proof -
    from that have "\<not> snd (save_json_file dumps filepath doc fs)"
      and "fs' = fst (save_json_file dumps filepath doc fs)"
      by simp_all
    then have "files fs' filepath = files fs filepath"
      by (simp add: save_json_file_target)
    then show ?thesis
      by (simp add: load_json_file_def)
  qed
  from a b show ?thesis by blast
qed

theorem save_then_load_witness:
  "save_json_file dumps_small ''data/covered_calls.json'' (JArr [])
       \<lparr>files = Map.empty, unwritable = (\<lambda>p. False)\<rparr>
     = (\<lparr>files = [''data/covered_calls.json.lock'' \<mapsto> [],
                  ''data/covered_calls.json'' \<mapsto> ''[]''],
         unwritable = (\<lambda>p. False)\<rparr>, True)
   \<and> load_json_file loads_small ''data/covered_calls.json'' (Some (JObj []))
       \<lparr>files = [''data/covered_calls.json.lock'' \<mapsto> [],
                 ''data/covered_calls.json'' \<mapsto> ''[]''],
        unwritable = (\<lambda>p. False)\<rparr>
     = JArr []"
proof -
  have c: "loads_small (dumps_small (JArr [])) = Some (JArr [])"
    by (simp add: loads_small_def dumps_small_def)
  have s: "save_json_file dumps_small ''data/covered_calls.json'' (JArr [])
       \<lparr>files = Map.empty, unwritable = (\<lambda>p. False)\<rparr>
     = (\<lparr>files = [''data/covered_calls.json.lock'' \<mapsto> [],
                  ''data/covered_calls.json'' \<mapsto> ''[]''],
         unwritable = (\<lambda>p. False)\<rparr>, True)"
    by (auto simp add: save_json_file_def Let_def dumps_small_def fun_eq_iff)
  from save_then_load [of loads_small dumps_small "JArr []", OF c] s show ?thesis
    by blast
qed

text \<open>
  The claim as stated holds for every path. When the path cannot be written (here no
  path can, as when the data directory is missing), \<^verbatim>\<open>save_json_file\<close> returns \<^verbatim>\<open>False\<close>,
  nothing is stored, and loading returns the default instead of the document.
\<close>

theorem unwritable_path_counterexample:
  "loads_small (dumps_small (JObj [])) = Some (JObj [])
   \<and> save_json_file dumps_small ''data/settings.json'' (JObj [])
       \<lparr>files = Map.empty, unwritable = (\<lambda>p. True)\<rparr>
     = (\<lparr>files = Map.empty, unwritable = (\<lambda>p. True)\<rparr>, False)
   \<and> load_json_file loads_small ''data/settings.json'' None
       \<lparr>files = Map.empty, unwritable = (\<lambda>p. True)\<rparr>
     = JArr []
   \<and> JArr [] \<noteq> JObj []"
  by (simp add: save_json_file_def load_json_file_def loads_small_def dumps_small_def)

end
